theory Spec2Isabelle
  imports Complex_Main "HOL-Library.Sublist" "HOL-Library.Multiset"
begin

section \<open>JavaScript values used by the tool matrix routes\<close>

text \<open>
  The routes \<^verbatim>\<open>GET /api/tools/matrix\<close> and \<^verbatim>\<open>GET /api/tools/matrix/usage\<close> of
  \<^verbatim>\<open>server/index.js\<close> are embedded. A JavaScript string is a \<^typ>\<open>string\<close>; a
  property that may be \<^verbatim>\<open>null\<close>, \<^verbatim>\<open>undefined\<close> or missing is an \<^typ>\<open>'a option\<close>.
  Calling a method on \<^verbatim>\<open>null\<close> or \<^verbatim>\<open>undefined\<close> throws a \<^verbatim>\<open>TypeError\<close>; that is
  the only exception the embedded code can raise, and it is a value of the model.
  Stock counts and usage minutes are integers (on which the double arithmetic of
  JavaScript is exact below \<open>10\<^sup>1\<^sup>5\<close>); diameters and tool lives are reals. Property names
  inherited from \<^verbatim>\<open>Object.prototype\<close> are not modelled: a table holds its own keys only.
\<close>

datatype js_error = TypeError

definition is_digit :: "char \<Rightarrow> bool" where
  \<comment> \<open>the class \<^verbatim>\<open>\d\<close> of a JavaScript regular expression\<close>
  "is_digit c = (c \<in> set ''0123456789'')"

definition falsy_str :: "string option \<Rightarrow> bool" where
  \<comment> \<open>\<^verbatim>\<open>!s\<close> for a string, null or undefined\<close>
  "falsy_str s = (case s of None \<Rightarrow> True | Some t \<Rightarrow> t = [])"

definition or_str :: "string option \<Rightarrow> string \<Rightarrow> string" where
  \<comment> \<open>\<^verbatim>\<open>s || d\<close>\<close>
  "or_str s d = (case s of None \<Rightarrow> d | Some t \<Rightarrow> if t = [] then d else t)"

definition or_num :: "('a::zero) option \<Rightarrow> 'a \<Rightarrow> 'a" where
  \<comment> \<open>\<^verbatim>\<open>x || d\<close> for a number, null or undefined\<close>
  "or_num x d = (case x of None \<Rightarrow> d | Some v \<Rightarrow> if v = 0 then d else v)"

fun includes_js :: "string \<Rightarrow> string \<Rightarrow> bool" where
  \<comment> \<open>\<^verbatim>\<open>s.includes(p)\<close>\<close>
  "includes_js [] p = (p = [])"
| "includes_js (c # cs) p = (prefix p (c # cs) \<or> includes_js cs p)"

fun replace_first :: "string \<Rightarrow> string \<Rightarrow> string \<Rightarrow> string" where
  \<comment> \<open>\<^verbatim>\<open>s.replace(p, r)\<close> with a string pattern: the first occurrence only\<close>
  "replace_first p r [] = (if p = [] then r else [])"
| "replace_first p r (c # cs) =
     (if prefix p (c # cs) then r @ drop (length p) (c # cs)
      else c # replace_first p r cs)"

fun split_char :: "char \<Rightarrow> string \<Rightarrow> string list" where
  \<comment> \<open>\<^verbatim>\<open>s.split(d)\<close> with a one-character separator\<close>
  "split_char d [] = [[]]"
| "split_char d (c # cs) =
     (if c = d then [] # split_char d cs
      else (c # hd (split_char d cs)) # tl (split_char d cs))"

definition slice :: "string \<Rightarrow> int \<Rightarrow> int \<Rightarrow> string" where
  \<comment> \<open>\<^verbatim>\<open>s.slice(b, e)\<close>: a negative index counts from the end\<close>
  "slice s b e =
     (let n = int (length s);
          start = (if b < 0 then max (n + b) 0 else min b n);
          stop = (if e < 0 then max (n + e) 0 else min e n)
      in take (nat (stop - start)) (drop (nat start) s))"

section \<open>The matrix route\<close>

datatype category = ECUT | MFC | XF | XFEED | OTHER

record inventory_row =
  toolCode :: "string option"
  quantity :: "int option"

record definition_entry =
  def_diameter :: "real option"
  def_toolLife :: "real option"
  def_codePrefix :: "string option"

record tool_data =
  diameter :: real
  toolLife :: real
  codePrefix :: string

record dash_tool = tool_data +
  toolId :: "string option"
  toolType :: category
  category :: category
  setupTime :: int
  inPool :: int
  warningThreshold :: int
  imageUrl :: "string option"


definition neutral_data :: tool_data where
  "neutral_data = \<lparr>diameter = 0, toolLife = 0, codePrefix = []\<rparr>"

definition entry_data :: "definition_entry \<Rightarrow> tool_data" where
  \<comment> \<open>the object built from a hit in \<^verbatim>\<open>baseDiameters\<close>\<close>
  "entry_data e =
     \<lparr>diameter = or_num (def_diameter e) 0,
      toolLife = or_num (def_toolLife e) 0,
      codePrefix = or_str (def_codePrefix e) []\<rparr>"

definition getToolData ::
  "(string \<rightharpoonup> definition_entry) \<Rightarrow> string option \<Rightarrow> js_error + tool_data" where
  "getToolData baseDiameters tc =
     (if falsy_str tc then Inr neutral_data
      else case tc of
        None \<Rightarrow> Inl TypeError
      | Some code \<Rightarrow>
          (case baseDiameters code of
             Some e \<Rightarrow> Inr (entry_data e)
           | None \<Rightarrow>
               (let baseCode = hd (split_char CHR ''_'' code)
                in case baseDiameters baseCode of
                     Some e \<Rightarrow> Inr (entry_data e)
                   | None \<Rightarrow> Inr neutral_data)))"


definition familyCode :: "string \<Rightarrow> string" where
  \<comment> \<open>the local \<^verbatim>\<open>familyCode\<close> of \<^verbatim>\<open>getImageUrl\<close>, for a string argument\<close>
  "familyCode code =
     (let cleaned0 = hd (split_char CHR ''_'' (replace_first ''RT-'' [] code));
          cleaned = (if prefix ''X'' cleaned0 then drop 1 cleaned0 else cleaned0)
      in if 6 \<le> length cleaned then slice cleaned 0 (- 3) else slice cleaned 0 4)"

definition getImageUrl :: "string option \<Rightarrow> js_error + string option" where
  "getImageUrl tc =
     (if falsy_str tc then Inr None
      else case tc of
        None \<Rightarrow> Inl TypeError
      | Some code \<Rightarrow> Inr (Some (''/api/images/tools/'' @ familyCode code @ ''.png'')))"

definition categoryOf :: "string option \<Rightarrow> category" where
  \<comment> \<open>the local \<^verbatim>\<open>category\<close> of the \<^verbatim>\<open>matrixTools\<close> callback\<close>
  "categoryOf tc =
     (let code = or_str tc []
      in if includes_js code ''8400'' \<or> includes_js code ''8410'' \<or> includes_js code ''8420'' then ECUT
         else if includes_js code ''8201'' \<or> includes_js code ''8211'' \<or> includes_js code ''8221'' then MFC
         else if includes_js code ''1525'' \<or> includes_js code ''8521'' then XF
         else if includes_js code ''7620'' \<or> includes_js code ''7624'' then XFEED
         else OTHER)"

definition warningThresholdOf :: "int \<Rightarrow> int" where
  \<comment> \<open>\<^verbatim>\<open>Math.max(3, Math.floor(quantity * 0.3))\<close>\<close>
  "warningThresholdOf q = max 3 \<lfloor>real_of_int q * 0.3\<rfloor>"

definition toDashboard ::
  "(string \<rightharpoonup> definition_entry) \<Rightarrow> inventory_row \<Rightarrow> js_error + dash_tool" where
  \<comment> \<open>the callback of \<^verbatim>\<open>filteredTools.map\<close>\<close>
  "toDashboard baseDiameters tool =
     (let q = or_num (quantity tool) 0;
          cat = categoryOf (toolCode tool)
      in case getToolData baseDiameters (toolCode tool) of
           Inl e \<Rightarrow> Inl e
         | Inr d \<Rightarrow>
             (case getImageUrl (toolCode tool) of
                Inl e \<Rightarrow> Inl e
              | Inr url \<Rightarrow>
                  Inr \<lparr>diameter = diameter d, toolLife = toolLife d, codePrefix = codePrefix d,
                       toolId = toolCode tool, toolType = cat, category = cat, setupTime = 0,
                       inPool = q, warningThreshold = warningThresholdOf q, imageUrl = url\<rparr>))"

fun map_result :: "('a \<Rightarrow> js_error + 'b) \<Rightarrow> 'a list \<Rightarrow> js_error + 'b list" where
  \<comment> \<open>\<^verbatim>\<open>Array.prototype.map\<close> with a callback that may throw\<close>
  "map_result f [] = Inr []"
| "map_result f (x # xs) =
     (case f x of
        Inl e \<Rightarrow> Inl e
      | Inr y \<Rightarrow> (case map_result f xs of Inl e \<Rightarrow> Inl e | Inr ys \<Rightarrow> Inr (y # ys)))"


section \<open>The usage route\<close>

record processed_tool =
  p_id :: string
  p_usageMinutes :: "int option"
  p_runningTime :: "int option"

record usage_tool = dash_tool +
  usageMinutes :: int

definition digits45 :: "string \<Rightarrow> string option" where
  \<comment> \<open>the group \<^verbatim>\<open>(\d{4,5})\<close> at the end of a pattern: greedy, so five digits when
      there are five\<close>
  "digits45 s =
     (let ds = takeWhile is_digit (take 5 s)
      in if 4 \<le> length ds then Some ds else None)"

fun match_P :: "string \<Rightarrow> string option" where
  \<comment> \<open>\<^verbatim>\<open>s.match(/P(\d{4,5})/)\<close>: group 1 of the leftmost match\<close>
  "match_P [] = None"
| "match_P (c # cs) =
     (if c = CHR ''P''
      then (case digits45 cs of Some ds \<Rightarrow> Some ds | None \<Rightarrow> match_P cs)
      else match_P cs)"

fun match_RT :: "string \<Rightarrow> (string \<times> string) option" where
  \<comment> \<open>\<^verbatim>\<open>s.match(/RT-([X]?)(\d{4,5})/)\<close>: groups 1 and 2 of the leftmost match\<close>
  "match_RT [] = None"
| "match_RT (c # cs) =
     (if prefix ''RT-'' (c # cs)
      then (let r = drop 3 (c # cs);
                withX = (if prefix ''X'' r
                         then map_option (Pair ''X'') (digits45 (drop 1 r)) else None)
            in case withX of
                 Some m \<Rightarrow> Some m
               | None \<Rightarrow>
                   (case digits45 r of
                      Some ds \<Rightarrow> Some ([], ds)
                    | None \<Rightarrow> match_RT cs))
      else match_RT cs)"

definition minutesOf :: "processed_tool \<Rightarrow> int" where
  \<comment> \<open>\<^verbatim>\<open>tool.usageMinutes || tool.runningTime || 0\<close>\<close>
  "minutesOf tool = or_num (p_usageMinutes tool) (or_num (p_runningTime tool) 0)"

definition usage_step :: "(string \<rightharpoonup> int) \<Rightarrow> processed_tool \<Rightarrow> (string \<rightharpoonup> int)" where
  \<comment> \<open>one iteration of the loop over \<^verbatim>\<open>allTools\<close>\<close>
  "usage_step usageMap tool =
     (let usageMinutes = minutesOf tool
      in if 0 < usageMinutes
         then (case match_P (p_id tool) of
                 Some codePattern \<Rightarrow>
                   usageMap(codePattern \<mapsto> or_num (usageMap codePattern) 0 + usageMinutes)
               | None \<Rightarrow> usageMap)
         else usageMap)"

definition usageMap :: "processed_tool list \<Rightarrow> (string \<rightharpoonup> int)" where
  "usageMap allTools = foldl usage_step Map.empty allTools"

definition codePatternOf :: "dash_tool \<Rightarrow> js_error + string" where
  \<comment> \<open>the local \<^verbatim>\<open>codePattern\<close> of the \<^verbatim>\<open>toolsWithUsage\<close> callback\<close>
  "codePatternOf tool =
     (if codePrefix tool \<noteq> [] then Inr (codePrefix tool)
      else case toolId tool of
        None \<Rightarrow> Inl TypeError
      | Some tid \<Rightarrow>
          (case match_RT tid of
             Some m \<Rightarrow> Inr (snd m)
           | None \<Rightarrow> Inr []))"

definition withUsage :: "(string \<rightharpoonup> int) \<Rightarrow> dash_tool \<Rightarrow> js_error + usage_tool" where
  \<comment> \<open>the callback of \<^verbatim>\<open>matrixTools.map\<close> in the usage route\<close>
  "withUsage um tool =
     (case codePatternOf tool of
        Inl e \<Rightarrow> Inl e
      | Inr codePattern \<Rightarrow>
          Inr (dash_tool.extend tool (usage_tool.fields (or_num (um codePattern) 0))))"

definition toolsWithUsage ::
  "(string \<rightharpoonup> int) \<Rightarrow> dash_tool list \<Rightarrow> js_error + usage_tool list" where
  "toolsWithUsage um tools = map_result (withUsage um) tools"

section \<open>The Tool entity\<close>

text \<open>
  Modelled from the spec: the class \<^verbatim>\<open>Tool\<close> and the module \<^verbatim>\<open>utils/ToolState\<close>, whose
  sources are missing; only the test suite of the constructor is at hand. The types below
  hold the fields the specification lists for a Tool record and its two states; a usage
  event carries the project, the minutes and whether the job that claims the tool is
  still in progress.
\<close>

datatype tool_state = FREE | IN_USE

record usage_event =
  ev_project :: string
  ev_minutes :: int
  ev_inProgress :: bool

record tool =
  matrixCode :: string
  tool_diameter :: "real option"
  toolState :: tool_state
  usageHistory :: "usage_event list"
  projectList :: "string list"

definition newTool :: "string \<Rightarrow> real option \<Rightarrow> tool" where
  \<comment> \<open>Modelled from the spec: the constructor of the class \<^verbatim>\<open>Tool\<close>, whose source is
      missing; the tests of the suite fix the fields it sets.\<close>
  "newTool code d =
     \<lparr>matrixCode = code, tool_diameter = d, toolState = FREE, usageHistory = [],
      projectList = []\<rparr>"

definition transition :: "tool_state \<Rightarrow> bool \<Rightarrow> tool_state" where
  \<comment> \<open>Modelled from the spec: the transition function of the tool state machine, total
      over the current state and the observed claim; its source is missing.\<close>
  "transition s claimed = (if claimed then IN_USE else FREE)"

definition reconcile :: "tool \<Rightarrow> usage_event option \<Rightarrow> tool" where
  \<comment> \<open>Modelled from the spec: what one reconciliation cycle does to a tool record, with
      the usage event the cycle delivers to it, if any; its source is missing.\<close>
  "reconcile t ev =
     (case ev of
        None \<Rightarrow> t\<lparr>toolState := transition (toolState t) False\<rparr>
      | Some e \<Rightarrow>
          t\<lparr>toolState := transition (toolState t) (ev_inProgress e),
            usageHistory := usageHistory t @ [e],
            projectList := List.insert (ev_project e) (projectList t)\<rparr>)"

section \<open>The specification's reading of the rules\<close>

text \<open>
  The definitions of this section follow the words of the specification, not the code;
  the theorems below compare them with the code.
\<close>

definition spec_category_table :: "(string \<times> category) list" where
  \<comment> \<open>the ordered table of family-code substrings and their categories\<close>
  "spec_category_table =
     [(''8400'', ECUT), (''8410'', ECUT), (''8420'', ECUT),
      (''8201'', MFC), (''8211'', MFC), (''8221'', MFC),
      (''1525'', XF), (''8521'', XF),
      (''7620'', XFEED), (''7624'', XFEED)]"

definition spec_classify :: "string \<Rightarrow> category" where
  \<comment> \<open>the first entry whose substring the code contains decides; no entry gives OTHER\<close>
  "spec_classify code =
     (case find (\<lambda>entry. includes_js code (fst entry)) spec_category_table of
        Some entry \<Rightarrow> snd entry
      | None \<Rightarrow> OTHER)"

definition spec_strip_prefix :: "string \<Rightarrow> string" where
  \<comment> \<open>strip the manufacturer prefix \<^verbatim>\<open>RT-\<close>\<close>
  "spec_strip_prefix s = (if prefix ''RT-'' s then drop 3 s else s)"

definition spec_strip_variant :: "string \<Rightarrow> string" where
  \<comment> \<open>strip a trailing variant suffix: an underscore and one or more digits\<close>
  "spec_strip_variant s =
     (let ds = takeWhile is_digit (rev s); rest = dropWhile is_digit (rev s)
      in if ds \<noteq> [] \<and> rest \<noteq> [] \<and> hd rest = CHR ''_'' then rev (tl rest) else s)"

definition spec_strip_feed :: "string \<Rightarrow> string" where
  \<comment> \<open>strip one leading feed-type letter \<^verbatim>\<open>X\<close>\<close>
  "spec_strip_feed s = (if prefix ''X'' s then drop 1 s else s)"

definition spec_remaining :: "string \<Rightarrow> string" where
  \<comment> \<open>what remains of a matrix code after the three strippings\<close>
  "spec_remaining s = spec_strip_feed (spec_strip_variant (spec_strip_prefix s))"

definition spec_family_rule :: "string \<Rightarrow> string" where
  \<comment> \<open>the length rule: all but the last three when there are six or more, else the
      first four\<close>
  "spec_family_rule r = (if 6 \<le> length r then take (length r - 3) r else take 4 r)"

definition spec_lookup :: "(string \<rightharpoonup> definition_entry) \<Rightarrow> string \<Rightarrow> tool_data" where
  \<comment> \<open>exact match on the full code, then the code cut at its first underscore, then the
      default\<close>
  "spec_lookup table code =
     (case table code of
        Some e \<Rightarrow> entry_data e
      | None \<Rightarrow>
          (case table (takeWhile (\<lambda>c. c \<noteq> CHR ''_'') code) of
             Some e \<Rightarrow> entry_data e
           | None \<Rightarrow> \<lparr>diameter = 0, toolLife = 0, codePrefix = []\<rparr>))"




section \<open>String operations\<close>


lemma split_char_nonempty: "split_char d s \<noteq> []"
  by (induction s) auto

lemma hd_split_char: "hd (split_char d s) = takeWhile (\<lambda>c. c \<noteq> d) s"
  by (induction s) auto

section \<open>The matrix route never throws\<close>

lemma getToolData_total: "\<exists>d. getToolData bd tc = Inr d"
  by (cases tc) (auto simp: getToolData_def falsy_str_def Let_def split: option.splits)

lemma getImageUrl_total: "\<exists>u. getImageUrl tc = Inr u"
  by (cases tc) (auto simp: getImageUrl_def falsy_str_def)

lemma toDashboard_Inr:
  "\<exists>d url. getToolData bd (toolCode row) = Inr d \<and> getImageUrl (toolCode row) = Inr url \<and>
     toDashboard bd row =
       Inr \<lparr>diameter = diameter d, toolLife = toolLife d, codePrefix = codePrefix d,
            toolId = toolCode row, toolType = categoryOf (toolCode row),
            category = categoryOf (toolCode row), setupTime = 0,
            inPool = or_num (quantity row) 0,
            warningThreshold = warningThresholdOf (or_num (quantity row) 0), imageUrl = url\<rparr>"
proof -
  obtain d where d: "getToolData bd (toolCode row) = Inr d"
    using getToolData_total by blast
  obtain url where u: "getImageUrl (toolCode row) = Inr url"
    using getImageUrl_total by blast
  show ?thesis
    by (simp add: toDashboard_def d u Let_def)
qed


section \<open>Category classification\<close>

text \<open>
  Claim C5. The category of a tool code (a string, or null, which the code reads as the
  empty string) is the category of the first entry of the ordered table of family-code
  substrings whose substring the code contains; it is one of ECUT, MFC, XF, XFEED and
  OTHER; and a code that contains the substring of no entry is OTHER. The classification
  is a total function, so no code is left without a category and none raises an error.
\<close>

theorem categoryOf_first_match:
  "categoryOf tc = spec_classify (or_str tc [])
   \<and> categoryOf tc \<in> {ECUT, MFC, XF, XFEED, OTHER}
   \<and> ((\<forall>entry \<in> set spec_category_table. \<not> includes_js (or_str tc []) (fst entry))
        \<longrightarrow> categoryOf tc = OTHER)"
proof -
  have eq: "categoryOf tc = spec_classify (or_str tc [])"
    by (simp add: categoryOf_def spec_classify_def spec_category_table_def Let_def)
  have mem: "categoryOf tc \<in> {ECUT, MFC, XF, XFEED, OTHER}"
    by (cases "categoryOf tc") simp_all
  have other: "(\<forall>entry \<in> set spec_category_table. \<not> includes_js (or_str tc []) (fst entry))
        \<longrightarrow> categoryOf tc = OTHER"
    by (simp add: categoryOf_def spec_category_table_def Let_def)
  from eq mem other show ?thesis by blast
qed

theorem categoryOf_first_match_witness:
  "list_all (\<lambda>entry. \<not> includes_js ''RT-9999300'' (fst entry)) spec_category_table
   \<and> categoryOf (Some ''RT-9999300'') = OTHER
   \<and> spec_classify ''RT-8400300'' = ECUT
   \<and> categoryOf (Some ''RT-8400300'') = ECUT"
  using categoryOf_first_match [of "Some ''RT-9999300''"]
    categoryOf_first_match [of "Some ''RT-8400300''"]
  by (simp add: spec_category_table_def spec_classify_def or_str_def)

section \<open>Warning threshold\<close>



section \<open>Normalization of a tool code never throws\<close>

text \<open>
  Claim C7. Normalizing a tool code returns a result for every input, a string or null:
  the lookup of the tool data, the image URL and the whole dashboard record are never an
  error. For the empty string and for null the result is the neutral record: family code
  (the stored codePrefix) empty, category OTHER, diameter 0 and toolLife 0, with no image
  URL.
\<close>

theorem normalization_total_neutral:
  "(\<exists>d. getToolData bd tc = Inr d) \<and> (\<exists>u. getImageUrl tc = Inr u)
   \<and> (\<exists>t. toDashboard bd row = Inr t)
   \<and> getToolData bd None = Inr \<lparr>diameter = 0, toolLife = 0, codePrefix = []\<rparr>
   \<and> getToolData bd (Some []) = Inr \<lparr>diameter = 0, toolLife = 0, codePrefix = []\<rparr>
   \<and> categoryOf None = OTHER \<and> categoryOf (Some []) = OTHER
   \<and> getImageUrl None = Inr None \<and> getImageUrl (Some []) = Inr None
   \<and> familyCode [] = []
   \<and> (toolCode row = None \<or> toolCode row = Some [] \<longrightarrow>
        (\<exists>t. toDashboard bd row = Inr t \<and> codePrefix t = [] \<and> category t = OTHER
            \<and> diameter t = 0 \<and> toolLife t = 0 \<and> imageUrl t = None))"
proof -
  have tot: "\<exists>t. toDashboard bd row = Inr t"
    using toDashboard_Inr [of bd row] by blast
  have d1: "getToolData bd None = Inr \<lparr>diameter = 0, toolLife = 0, codePrefix = []\<rparr>"
    and d2: "getToolData bd (Some []) = Inr \<lparr>diameter = 0, toolLife = 0, codePrefix = []\<rparr>"
    by (simp_all add: getToolData_def falsy_str_def neutral_data_def)
  have c1: "categoryOf None = OTHER" and c2: "categoryOf (Some []) = OTHER"
    by (simp_all add: categoryOf_def or_str_def)
  have u1: "getImageUrl None = Inr None" and u2: "getImageUrl (Some []) = Inr None"
    by (simp_all add: getImageUrl_def falsy_str_def)
  have f: "familyCode [] = []"
    by (simp add: familyCode_def slice_def)
  have row: "\<exists>t. toDashboard bd row = Inr t \<and> codePrefix t = [] \<and> category t = OTHER
            \<and> diameter t = 0 \<and> toolLife t = 0 \<and> imageUrl t = None"
    if "toolCode row = None \<or> toolCode row = Some []"
    using that toDashboard_Inr [of bd row] d1 d2 c1 c2 u1 u2 by auto
  from tot d1 d2 c1 c2 u1 u2 f row getToolData_total [of bd tc] getImageUrl_total [of tc]
  show ?thesis by blast
qed

theorem normalization_total_neutral_witness:
  "toolCode \<lparr>toolCode = None, quantity = Some 4\<rparr> = None
   \<and> (\<exists>t. toDashboard Map.empty \<lparr>toolCode = None, quantity = Some 4\<rparr> = Inr t
          \<and> codePrefix t = [] \<and> category t = OTHER \<and> diameter t = 0 \<and> toolLife t = 0
          \<and> imageUrl t = None \<and> inPool t = 4)"
  using normalization_total_neutral
    [where bd = Map.empty and row = "\<lparr>toolCode = None, quantity = Some 4\<rparr>"]
  by (auto simp: toDashboard_def Let_def or_num_def)

section \<open>Lookup of the tool data\<close>

text \<open>
  Claim C10, as stated: for every tool code the data come from the exact entry of the
  table, else from the entry of the code cut at its first underscore, else they are the
  default. The empty code refutes it: the guard at the head of \<^verbatim>\<open>getToolData\<close> returns
  the default before the table is read, also when the table has an entry for the empty
  key.
\<close>

theorem getToolData_empty_code_skips_table:
  "getToolData (Map.empty([] \<mapsto> \<lparr>def_diameter = Some 6, def_toolLife = Some 120,
       def_codePrefix = Some ''8400''\<rparr>)) (Some [])
   \<noteq> Inr (spec_lookup (Map.empty([] \<mapsto> \<lparr>def_diameter = Some 6, def_toolLife = Some 120,
       def_codePrefix = Some ''8400''\<rparr>)) [])"
  by (simp add: getToolData_def falsy_str_def neutral_data_def spec_lookup_def entry_data_def
      or_num_def or_str_def)

text \<open>
  Claim C10, amended. For every non-empty tool code the data come from the exact entry of
  the table (the full code, variant suffix included); only when there is none, from the
  entry of the base code, the code cut at its first underscore; and when there is neither,
  they are diameter 0, toolLife 0 and codePrefix empty. An empty or null code gets these
  defaults without the table being consulted. No case is an error.
\<close>

theorem getToolData_precedence:
  "(code \<noteq> [] \<longrightarrow> getToolData bd (Some code) = Inr (spec_lookup bd code))
   \<and> getToolData bd (Some []) = Inr \<lparr>diameter = 0, toolLife = 0, codePrefix = []\<rparr>
   \<and> getToolData bd None = Inr \<lparr>diameter = 0, toolLife = 0, codePrefix = []\<rparr>"
  by (simp add: getToolData_def falsy_str_def neutral_data_def spec_lookup_def hd_split_char
      Let_def split: option.splits)

theorem getToolData_precedence_witness:
  "''RT-8400300_1'' \<noteq> []
   \<and> getToolData (Map.empty(''RT-8400300'' \<mapsto> \<lparr>def_diameter = Some 6, def_toolLife = Some 120,
       def_codePrefix = Some ''8400''\<rparr>)) (Some ''RT-8400300_1'')
     = Inr \<lparr>diameter = 6, toolLife = 120, codePrefix = ''8400''\<rparr>"
  using getToolData_precedence [where code = "''RT-8400300_1''" and
      bd = "Map.empty(''RT-8400300'' \<mapsto> \<lparr>def_diameter = Some 6,
       def_toolLife = Some 120, def_codePrefix = Some ''8400''\<rparr>)"]
  by (simp add: spec_lookup_def entry_data_def or_num_def or_str_def)

section \<open>Loading the inventory\<close>




section \<open>The Tool entity and its state\<close>

text \<open>
  Claim C9. A newly constructed Tool record is in state FREE and has an empty usage
  history; FREE and IN_USE are the only states; and a tool to which no reconciliation
  cycle delivers a usage event stays FREE, with its history still empty.
\<close>

theorem newTool_starts_FREE:
  "toolState (newTool code d) = FREE
   \<and> usageHistory (newTool code d) = []
   \<and> (UNIV :: tool_state set) = {FREE, IN_USE}
   \<and> (list_all (\<lambda>ev. ev = None) evs \<longrightarrow>
        toolState (foldl reconcile (newTool code d) evs) = FREE
        \<and> usageHistory (foldl reconcile (newTool code d) evs) = [])"
proof -
  have univ: "(UNIV :: tool_state set) = {FREE, IN_USE}"
  proof -
    have "s \<in> {FREE, IN_USE}" for s :: tool_state by (cases s) simp_all
    then show ?thesis by blast
  qed
  have keep: "toolState (foldl reconcile t evs) = FREE \<and> usageHistory (foldl reconcile t evs) = []"
    if "list_all (\<lambda>ev. ev = None) evs" "toolState t = FREE" "usageHistory t = []" for t evs
    using that by (induction evs arbitrary: t) (auto simp: reconcile_def transition_def)
  show ?thesis using univ keep [of evs "newTool code d"] by (simp add: newTool_def)
qed

theorem newTool_starts_FREE_witness:
  "list_all (\<lambda>ev. ev = None) [None, None :: usage_event option]
   \<and> toolState (foldl reconcile (newTool ''RT-8400300'' None) [None, None]) = FREE
   \<and> usageHistory (foldl reconcile (newTool ''RT-8400300'' None) [None, None]) = []"
  using newTool_starts_FREE [where evs = "[None, None]" and code = "''RT-8400300''" and d = None]
  by simp

section \<open>Merging usage into the matrix tools\<close>

text \<open>
  Claim C2. A tool without a stored codePrefix gets its code pattern from the expression
  \<^verbatim>\<open>/RT-([X]?)(\d{4,5})/\<close>, whose greedy group takes five digits of a seven-digit code:
  for \<^verbatim>\<open>RT-8201300\<close> the pattern is \<^verbatim>\<open>82013\<close>, not the family code \<^verbatim>\<open>8201\<close> that the
  image URL of the same tool carries and under which the 45 minutes of the usage record
  \<^verbatim>\<open>FRA-P8201-S15.2R0_H100W16L100X\<close> are stored. The tool is given 0 minutes.
\<close>

theorem usage_fallback_takes_five_digits:
  "familyCode ''RT-8201300'' = ''8201''
   \<and> usageMap [\<lparr>p_id = ''FRA-P8201-S15.2R0_H100W16L100X'', p_usageMinutes = Some 45,
        p_runningTime = None\<rparr>] ''8201'' = Some 45
   \<and> toDashboard Map.empty \<lparr>toolCode = Some ''RT-8201300'', quantity = Some 10\<rparr> =
       Inr \<lparr>diameter = 0, toolLife = 0, codePrefix = [], toolId = Some ''RT-8201300'',
        toolType = MFC, category = MFC, setupTime = 0, inPool = 10, warningThreshold = 3,
        imageUrl = Some ''/api/images/tools/8201.png''\<rparr>
   \<and> codePatternOf \<lparr>diameter = 0, toolLife = 0, codePrefix = [], toolId = Some ''RT-8201300'',
        toolType = MFC, category = MFC, setupTime = 0, inPool = 10, warningThreshold = 3,
        imageUrl = Some ''/api/images/tools/8201.png''\<rparr> = Inr ''82013''
   \<and> map_sum id (map usageMinutes)
        (toolsWithUsage
          (usageMap [\<lparr>p_id = ''FRA-P8201-S15.2R0_H100W16L100X'', p_usageMinutes = Some 45,
             p_runningTime = None\<rparr>])
          [\<lparr>diameter = 0, toolLife = 0, codePrefix = [], toolId = Some ''RT-8201300'',
            toolType = MFC, category = MFC, setupTime = 0, inPool = 10, warningThreshold = 3,
            imageUrl = Some ''/api/images/tools/8201.png''\<rparr>]) = Inr [0]"
proof -
  have fc: "familyCode ''RT-8201300'' = ''8201''"
    by (simp add: familyCode_def slice_def)
  have um: "usageMap [\<lparr>p_id = ''FRA-P8201-S15.2R0_H100W16L100X'', p_usageMinutes = Some 45,
        p_runningTime = None\<rparr>] ''8201'' = Some 45"
    by (simp add: usageMap_def usage_step_def minutesOf_def or_num_def digits45_def is_digit_def)
  have td: "toDashboard Map.empty \<lparr>toolCode = Some ''RT-8201300'', quantity = Some 10\<rparr> =
       Inr \<lparr>diameter = 0, toolLife = 0, codePrefix = [], toolId = Some ''RT-8201300'',
        toolType = MFC, category = MFC, setupTime = 0, inPool = 10, warningThreshold = 3,
        imageUrl = Some ''/api/images/tools/8201.png''\<rparr>"
    by (simp add: toDashboard_def getToolData_def getImageUrl_def falsy_str_def neutral_data_def
        categoryOf_def or_str_def or_num_def warningThresholdOf_def fc Let_def)
  have cp: "codePatternOf \<lparr>diameter = 0, toolLife = 0, codePrefix = [],
        toolId = Some ''RT-8201300'',
        toolType = MFC, category = MFC, setupTime = 0, inPool = 10, warningThreshold = 3,
        imageUrl = Some ''/api/images/tools/8201.png''\<rparr> = Inr ''82013''"
    by (simp add: codePatternOf_def digits45_def is_digit_def)
  have tw: "map_sum id (map usageMinutes)
        (toolsWithUsage
          (usageMap [\<lparr>p_id = ''FRA-P8201-S15.2R0_H100W16L100X'', p_usageMinutes = Some 45,
             p_runningTime = None\<rparr>])
          [\<lparr>diameter = 0, toolLife = 0, codePrefix = [], toolId = Some ''RT-8201300'',
            toolType = MFC, category = MFC, setupTime = 0, inPool = 10, warningThreshold = 3,
            imageUrl = Some ''/api/images/tools/8201.png''\<rparr>]) = Inr [0]"
    by (simp add: toolsWithUsage_def withUsage_def cp usageMap_def usage_step_def minutesOf_def
        or_num_def digits45_def is_digit_def dash_tool.defs usage_tool.defs tool_data.defs)
  show ?thesis by (rule conjI [OF fc conjI [OF um conjI [OF td conjI [OF cp tw]]]])
qed

section \<open>Family code of a matrix code\<close>

lemma replace_first_no_R: "CHR ''R'' \<notin> set s \<Longrightarrow> replace_first ''RT-'' [] s = s"
  by (induction s) auto

lemma replace_first_RT_prefix: "prefix ''RT-'' s \<Longrightarrow> replace_first ''RT-'' [] s = drop 3 s"
proof -
  assume "prefix ''RT-'' s"
  then obtain t where "s = ''RT-'' @ t" by (auto simp: prefix_def)
  then show ?thesis by simp
qed

lemma spec_strip_variant_shape:
  "\<exists>suf. s = spec_strip_variant s @ suf
        \<and> (suf = [] \<or> (\<exists>ds. suf = CHR ''_'' # ds \<and> list_all is_digit ds))"
proof (cases "takeWhile is_digit (rev s) \<noteq> [] \<and> dropWhile is_digit (rev s) \<noteq> []
              \<and> hd (dropWhile is_digit (rev s)) = CHR ''_''")
  case True
  define ds where "ds = takeWhile is_digit (rev s)"
  define rest where "rest = dropWhile is_digit (rev s)"
  have r: "rest = CHR ''_'' # tl rest" using True by (cases rest) (auto simp: rest_def)
  have "rev s = ds @ rest" by (simp add: ds_def rest_def)
  then have "rev s = ds @ CHR ''_'' # tl rest" using r by simp
  then have "rev (rev s) = rev (ds @ CHR ''_'' # tl rest)" by (rule arg_cong)
  then have s: "s = rev (tl rest) @ CHR ''_'' # rev ds" by simp
  have dig: "list_all is_digit (rev ds)"
    unfolding ds_def list_all_iff using set_takeWhileD by fastforce
  have v: "spec_strip_variant s = rev (tl rest)"
    using True by (simp add: spec_strip_variant_def rest_def Let_def)
  show ?thesis using s dig v by auto
next
  case False
  then have "spec_strip_variant s = s"
    by (auto simp: spec_strip_variant_def Let_def)
  then show ?thesis by simp
qed

lemma takeWhile_before_sep:
  "\<forall>c \<in> set u. c \<noteq> d \<Longrightarrow> suf = [] \<or> hd suf = d \<Longrightarrow> takeWhile (\<lambda>c. c \<noteq> d) (u @ suf) = u"
  by (cases suf) auto

lemma slice_drop_last3: "6 \<le> length r \<Longrightarrow> slice r 0 (- 3) = take (length r - 3) r"
  by (simp add: slice_def Let_def max_def nat_diff_distrib')

lemma slice_first4: "slice r 0 4 = take 4 r"
  by (simp add: slice_def Let_def min_def) 


lemma not_digit_marker:
  "\<not> is_digit CHR ''R''" "\<not> is_digit CHR ''_''" "\<not> is_digit CHR ''X''"
  "\<not> is_digit CHR ''P''"
  by (simp_all add: is_digit_def)

lemma digits_no_marker:
  "list_all is_digit ds \<Longrightarrow> CHR ''R'' \<notin> set ds \<and> CHR ''_'' \<notin> set ds"
  unfolding list_all_iff using not_digit_marker by blast

lemma spec_remaining_code:
  assumes dig: "list_all is_digit (spec_remaining s)"
  shows "familyCode s = spec_family_rule (spec_remaining s)"
proof -
  define s1 where "s1 = spec_strip_prefix s"
  define s2 where "s2 = spec_strip_variant s1"
  define r where "r = spec_strip_feed s2"
  have r_eq: "r = spec_remaining s"
    by (simp add: r_def s2_def s1_def spec_remaining_def)
  have r_dig: "\<forall>c \<in> set r. is_digit c"
    using dig by (simp add: r_eq list_all_iff)
  have s2_chars: "\<forall>c \<in> set s2. is_digit c \<or> c = CHR ''X''"
  proof (cases "prefix ''X'' s2")
    case True
    then have "s2 = CHR ''X'' # r" by (cases s2) (auto simp: r_def spec_strip_feed_def)
    then show ?thesis using r_dig by auto
  next
    case False
    then have "s2 = r" by (simp add: r_def spec_strip_feed_def)
    then show ?thesis using r_dig by auto
  qed
  obtain suf where s1: "s1 = s2 @ suf"
    and suf: "suf = [] \<or> (\<exists>ds. suf = CHR ''_'' # ds \<and> list_all is_digit ds)"
    using spec_strip_variant_shape [of s1] unfolding s2_def by blast
  have suf_R: "CHR ''R'' \<notin> set suf"
    using suf digits_no_marker by auto
  have s2_R: "CHR ''R'' \<notin> set s2"
    using s2_chars not_digit_marker by blast
  have no_R: "CHR ''R'' \<notin> set s1"
    using suf_R s2_R by (simp add: s1)
  have repl: "replace_first ''RT-'' [] s = s1"
  proof (cases "prefix ''RT-'' s")
    case True
    then show ?thesis by (simp add: replace_first_RT_prefix s1_def spec_strip_prefix_def)
  next
    case False
    then have "s1 = s" by (simp add: s1_def spec_strip_prefix_def)
    then show ?thesis using no_R by (simp add: replace_first_no_R)
  qed
  have no_sep: "\<forall>c \<in> set s2. c \<noteq> CHR ''_''"
    using s2_chars not_digit_marker by blast
  have "suf = [] \<or> hd suf = CHR ''_''" using suf by auto
  then have cut: "hd (split_char CHR ''_'' s1) = s2"
    unfolding hd_split_char s1 using no_sep by (rule takeWhile_before_sep [rotated])
  have "familyCode s = (if 6 \<le> length r then slice r 0 (- 3) else slice r 0 4)"
    by (simp add: familyCode_def repl cut r_def spec_strip_feed_def Let_def)
  then show ?thesis
    by (simp add: slice_drop_last3 slice_first4 spec_family_rule_def r_eq)
qed

text \<open>
  Claim C1. For every tool-code string whose remainder, after the manufacturer prefix
  \<^verbatim>\<open>RT-\<close>, a trailing variant suffix of an underscore and digits, and one leading feed-type
  letter \<^verbatim>\<open>X\<close> are stripped, is a digit string: the family code computed by the code is
  all of these digits but the last three when there are six or more, and the first four
  otherwise; it is the family code the image URL carries (the empty string has no URL).
  \<^verbatim>\<open>RT-8400300\<close> yields 8400 and \<^verbatim>\<open>RT-X7620300\<close> yields 7620.
\<close>

theorem familyCode_length_rule:
  "(list_all is_digit (spec_remaining s) \<longrightarrow>
      familyCode s = spec_family_rule (spec_remaining s)
      \<and> getImageUrl (Some s) =
          Inr (if s = [] then None
               else Some (''/api/images/tools/'' @ spec_family_rule (spec_remaining s) @ ''.png'')))
   \<and> familyCode ''RT-8400300'' = ''8400''
   \<and> familyCode ''RT-X7620300'' = ''7620''"
proof -
  have ex1: "familyCode ''RT-8400300'' = ''8400''"
    and ex2: "familyCode ''RT-X7620300'' = ''7620''"
    by (simp_all add: familyCode_def slice_def)
  have url: "getImageUrl (Some s) =
      Inr (if s = [] then None else Some (''/api/images/tools/'' @ familyCode s @ ''.png''))"
    by (simp add: getImageUrl_def falsy_str_def)
  show ?thesis using ex1 ex2 url spec_remaining_code [of s] by simp
qed

theorem familyCode_length_rule_witness:
  "list_all is_digit (spec_remaining ''RT-15250391_2'')
   \<and> spec_remaining ''RT-15250391_2'' = ''15250391''
   \<and> familyCode ''RT-15250391_2'' = ''15250''
   \<and> getImageUrl (Some ''RT-15250391_2'') = Inr (Some ''/api/images/tools/15250.png'')"
  using familyCode_length_rule [where s = "''RT-15250391_2''"]
  by (simp add: spec_remaining_def spec_strip_feed_def spec_strip_variant_def
      spec_strip_prefix_def spec_family_rule_def is_digit_def)

section \<open>Aggregation of usage\<close>























end
